theory Spec2Isabelle
  imports Complex_Main "HOL-Library.Word"
begin

section \<open>Roadside-ditch extraction notebook: thresholding, masking and fusion\<close>

text \<open>
  The program is the notebook \<^verbatim>\<open>01_wbt_eda.ipynb\<close>. Its cells work on numpy arrays read
  from single-band rasters. The cells are embedded here as functions on arrays; the numpy,
  scikit-image and scikit-learn calls they make are embedded by what those libraries
  document for the arguments the notebook passes.

  An array element of floating type is a real number, the value of a finite float, or the
  one special value the notebook itself manipulates, \<open>NaN\<close>; the infinities are left out,
  the rasters hold finite samples. Comparisons of floats are exact and are embedded as
  comparisons of reals. The computations that round (numpy's reductions, the arithmetic on
  their results) are not re-derived from the reals: they are operations of a record of
  floating-point kernels that the thresholds take as a parameter. The product of step 5
  and the subtraction of the offset are written as the exact operations; they are exact in
  floating point on masks of 0 and 1 and at the offset 0 the notebook passes.
\<close>

subsection \<open>Floating samples\<close>

datatype fl = NaN | Fin real

fun isnan :: "fl \<Rightarrow> bool" where
  "isnan NaN = True"
| "isnan (Fin x) = False"

text \<open>Arithmetic: a NaN operand gives NaN.\<close>

fun fl_sub :: "fl \<Rightarrow> fl \<Rightarrow> fl" where
  "fl_sub (Fin x) (Fin y) = Fin (x - y)"
| "fl_sub _ _ = NaN"

fun fl_mul :: "fl \<Rightarrow> fl \<Rightarrow> fl" where
  "fl_mul (Fin x) (Fin y) = Fin (x * y)"
| "fl_mul _ _ = NaN"

text \<open>Comparisons: any comparison with a NaN operand is false.\<close>

fun fl_less :: "fl \<Rightarrow> fl \<Rightarrow> bool" where
  "fl_less (Fin x) (Fin y) = (x < y)"
| "fl_less _ _ = False"

fun fl_eq :: "fl \<Rightarrow> fl \<Rightarrow> bool" where
  "fl_eq (Fin x) (Fin y) = (x = y)"
| "fl_eq _ _ = False"

subsection \<open>Two-dimensional arrays\<close>

text \<open>
  A band read by \<^verbatim>\<open>read(1)\<close> is a two-dimensional array: its shape \<open>(nrows, ncols)\<close> and
  its elements in row-major order.
\<close>

record 'a ndarray =
  nrows :: nat
  ncols :: nat
  flat :: "'a list"

definition wf_array :: "'a ndarray \<Rightarrow> bool" where
  "wf_array a = (length (flat a) = nrows a * ncols a)"

definition same_shape :: "'a ndarray \<Rightarrow> 'b ndarray \<Rightarrow> bool" where
  "same_shape a b = (nrows a = nrows b \<and> ncols a = ncols b)"

datatype error = ValueError | NameError

text \<open>
  Element-wise operations between an array and a scalar keep the shape.
\<close>

definition array_scalar :: "('a \<Rightarrow> 'b \<Rightarrow> 'c) \<Rightarrow> 'a ndarray \<Rightarrow> 'b \<Rightarrow> 'c ndarray" where
  "array_scalar f a s = \<lparr>nrows = nrows a, ncols = ncols a, flat = map (\<lambda>v. f v s) (flat a)\<rparr>"

text \<open>
  Element-wise operations between two arrays follow numpy's broadcasting: along each axis the
  two lengths must be equal or one of them must be 1, and an axis of length 1 is repeated.
  Any other pair of shapes raises \<^verbatim>\<open>ValueError\<close> (operands could not be broadcast together).
\<close>

definition broadcast_dim :: "nat \<Rightarrow> nat \<Rightarrow> nat option" where
  "broadcast_dim m n =
     (if m = n then Some m else if m = 1 then Some n else if n = 1 then Some m else None)"

definition bget :: "'a ndarray \<Rightarrow> nat \<Rightarrow> nat \<Rightarrow> 'a" where
  "bget a r c =
     flat a ! ((if nrows a = 1 then 0 else r) * ncols a + (if ncols a = 1 then 0 else c))"

definition array_array ::
  "('a \<Rightarrow> 'b \<Rightarrow> 'c) \<Rightarrow> 'a ndarray \<Rightarrow> 'b ndarray \<Rightarrow> error + 'c ndarray" where
  "array_array f a b =
     (case broadcast_dim (nrows a) (nrows b) of
        None \<Rightarrow> Inl ValueError
      | Some h \<Rightarrow>
         (case broadcast_dim (ncols a) (ncols b) of
            None \<Rightarrow> Inl ValueError
          | Some w \<Rightarrow>
             Inr \<lparr>nrows = h, ncols = w,
                  flat = concat (map (\<lambda>r. map (\<lambda>c. f (bget a r c) (bget b r c)) [0..<w])
                                     [0..<h])\<rparr>))"

subsection \<open>Applying a threshold\<close>

text \<open>
  Every thresholding cell ends with
  \<^verbatim>\<open>thresholded_dfme = (dfme_data < dynamic_threshold).astype("uint8")\<close>
  (with \<^verbatim>\<open>adaptive_threshold\<close>, an array, in the local-adaptive cell). The comparison gives a
  boolean array; the cast writes True as 1 and False as 0.
\<close>

definition astype_uint8 :: "bool \<Rightarrow> 8 word" where
  "astype_uint8 b = (if b then 1 else 0)"

definition less_scalar_uint8 :: "fl ndarray \<Rightarrow> fl \<Rightarrow> 8 word ndarray" where
  "less_scalar_uint8 a t = array_scalar (\<lambda>v s. astype_uint8 (fl_less v s)) a t"

definition less_array_uint8 :: "fl ndarray \<Rightarrow> fl ndarray \<Rightarrow> error + 8 word ndarray" where
  "less_array_uint8 a t = array_array (\<lambda>v s. astype_uint8 (fl_less v s)) a t"

subsection \<open>Datasets and nodata\<close>

text \<open>
  A raster opened with \<^verbatim>\<open>rasterio.open\<close>: its first band and its \<^verbatim>\<open>nodata\<close> attribute, which
  is a number or \<^verbatim>\<open>None\<close>.
\<close>

record dataset =
  band1 :: "fl ndarray"
  nodata :: "fl option"

text \<open>
  \<^verbatim>\<open>dfme_data == src.nodata\<close>: element-wise equality with the sentinel. A NaN never compares
  equal, and the comparison with \<^verbatim>\<open>None\<close> is false everywhere.
\<close>

definition eq_nodata :: "fl \<Rightarrow> fl option \<Rightarrow> bool" where
  "eq_nodata v nd = (case nd of None \<Rightarrow> False | Some n \<Rightarrow> fl_eq v n)"

text \<open>\<^verbatim>\<open>dfme_data[dfme_data == src.nodata] = np.nan\<close>: the new contents of the array.\<close>

definition setitem_nodata_nan :: "fl ndarray \<Rightarrow> fl option \<Rightarrow> fl ndarray" where
  "setitem_nodata_nan a nd = a\<lparr>flat := map (\<lambda>v. if eq_nodata v nd then NaN else v) (flat a)\<rparr>"

text \<open>The samples that are not NaN, in array order (\<^verbatim>\<open>dfme_data[~np.isnan(dfme_data)]\<close>).\<close>

fun valid_samples :: "fl list \<Rightarrow> real list" where
  "valid_samples [] = []"
| "valid_samples (NaN # vs) = valid_samples vs"
| "valid_samples (Fin x # vs) = x # valid_samples vs"

subsection \<open>Floating-point kernels\<close>

text \<open>
  What numpy and Python compute in floating point, each result rounded and the reductions
  summed in numpy's own order: the mean and the standard deviation (\<^verbatim>\<open>ddof=0\<close>) of a
  non-empty sequence of samples, the percentile of a non-empty sequence of samples by the
  default linear method, and the product and the difference of two floats. A kernel returns
  a float, or NaN.
\<close>

record float_ops =
  f_mean :: "real list \<Rightarrow> fl"
  f_std :: "real list \<Rightarrow> fl"
  f_percentile :: "real list \<Rightarrow> real \<Rightarrow> fl"
  f_mul :: "real \<Rightarrow> real \<Rightarrow> fl"
  f_sub :: "real \<Rightarrow> real \<Rightarrow> fl"

text \<open>A binary kernel on array elements: a NaN operand gives NaN.\<close>

fun lift2 :: "(real \<Rightarrow> real \<Rightarrow> fl) \<Rightarrow> fl \<Rightarrow> fl \<Rightarrow> fl" where
  "lift2 f (Fin x) (Fin y) = f x y"
| "lift2 f _ _ = NaN"

subsection \<open>Global statistical threshold\<close>

text \<open>
  \<^verbatim>\<open>np.nanmean\<close>: the mean of the non-NaN elements; with no such element the result is NaN
  (numpy warns, it does not raise).
\<close>

definition nanmean :: "float_ops \<Rightarrow> fl ndarray \<Rightarrow> fl" where
  "nanmean fp a =
     (let xs = valid_samples (flat a)
      in if xs = [] then NaN else f_mean fp xs)"

text \<open>
  \<^verbatim>\<open>np.nanstd\<close> with its default \<^verbatim>\<open>ddof=0\<close>: the standard deviation of the non-NaN elements;
  NaN when there is none.
\<close>

definition nanstd :: "float_ops \<Rightarrow> fl ndarray \<Rightarrow> fl" where
  "nanstd fp a =
     (let xs = valid_samples (flat a)
      in if xs = [] then NaN else f_std fp xs)"

text \<open>
  \<^verbatim>\<open>dynamic_threshold = mean_dfme - 1.5 * std_dfme  # Adjust factor as needed\<close>.
  The factor is the argument \<open>k\<close>; the notebook runs with 1.5.
\<close>

definition global_statistical :: "float_ops \<Rightarrow> real \<Rightarrow> fl ndarray \<Rightarrow> fl" where
  "global_statistical fp k a =
     (let mean_dfme = nanmean fp a;
          std_dfme = nanstd fp a
      in lift2 (f_sub fp) mean_dfme (lift2 (f_mul fp) (Fin k) std_dfme))"

definition notebook_factor :: real where
  "notebook_factor = 3 / 2"

subsection \<open>Percentile threshold\<close>

text \<open>
  \<^verbatim>\<open>np.nanpercentile(dfme_data, percentile_cutoff)\<close> with the default linear method. A
  percentile outside \<open>[0, 100]\<close> raises \<^verbatim>\<open>ValueError\<close>. An all-NaN array gives NaN with a
  warning; otherwise the result is the percentile of the non-NaN elements.
\<close>

definition nanpercentile :: "float_ops \<Rightarrow> fl ndarray \<Rightarrow> real \<Rightarrow> error + fl" where
  "nanpercentile fp a q =
     (if \<not> (0 \<le> q \<and> q \<le> 100) then Inl ValueError
      else let xs = valid_samples (flat a)
           in if xs = [] then Inr NaN else Inr (f_percentile fp xs q))"

definition notebook_percentile_cutoff :: real where
  "notebook_percentile_cutoff = 5"

subsection \<open>Local adaptive threshold\<close>

text \<open>
  \<^verbatim>\<open>threshold_local(dfme_data, block_size, method='gaussian', offset=0)\<close> of scikit-image.
  It raises \<^verbatim>\<open>ValueError\<close> when \<^verbatim>\<open>block_size % 2 == 0\<close>. For the gaussian method it takes
  \<open>sigma = (block_size - 1) / 6\<close>, calls \<^verbatim>\<open>skimage.filters.gaussian\<close> into a fresh array and
  returns that array minus the offset.

  \<^verbatim>\<open>skimage.filters.gaussian\<close> raises \<^verbatim>\<open>ValueError\<close> for a sigma below zero (sigma values
  less than zero are not valid); a float image is taken as it is and passed to
  \<^verbatim>\<open>scipy.ndimage.gaussian_filter\<close>.

  \<^verbatim>\<open>gaussian_filter\<close> filters along each axis whose sigma exceeds \<open>1e-15\<close>, axis 0 first; when
  no axis qualifies it copies the input to the output. The one-dimensional filter itself
  (a truncated Gaussian kernel correlated along one axis, borders reflected) is the
  parameter \<open>gaussian_filter1d\<close>, applied as \<open>gaussian_filter1d sigma axis input\<close>.
\<close>

definition gaussian_filter ::
  "(real \<Rightarrow> nat \<Rightarrow> fl ndarray \<Rightarrow> fl ndarray) \<Rightarrow> fl ndarray \<Rightarrow> real \<Rightarrow> fl ndarray" where
  "gaussian_filter gaussian_filter1d input sigma =
     (if sigma > 1 / 10 ^ 15
      then gaussian_filter1d sigma 1 (gaussian_filter1d sigma 0 input)
      else input)"

definition gaussian ::
  "(real \<Rightarrow> nat \<Rightarrow> fl ndarray \<Rightarrow> fl ndarray) \<Rightarrow> fl ndarray \<Rightarrow> real \<Rightarrow> error + fl ndarray"
  where
  "gaussian gaussian_filter1d img sigma =
     (if sigma < 0 then Inl ValueError
      else Inr (gaussian_filter gaussian_filter1d img sigma))"

definition threshold_local ::
  "(real \<Rightarrow> nat \<Rightarrow> fl ndarray \<Rightarrow> fl ndarray) \<Rightarrow> fl ndarray \<Rightarrow> int \<Rightarrow> real \<Rightarrow> error + fl ndarray"
  where
  "threshold_local gaussian_filter1d img block_size offset =
     (if block_size mod 2 = 0 then Inl ValueError
      else let sigma = (real_of_int block_size - 1) / 6
           in case gaussian gaussian_filter1d img sigma of
                Inl e \<Rightarrow> Inl e
              | Inr thresh_image \<Rightarrow> Inr (array_scalar fl_sub thresh_image (Fin offset)))"

definition notebook_block_size :: int where
  "notebook_block_size = 101"

subsection \<open>Clustering threshold\<close>

text \<open>
  \<^verbatim>\<open>KMeans(n_clusters=3, random_state=42).fit(valid_pixels)\<close> of scikit-learn. Fitting
  validates before it clusters: \<^verbatim>\<open>n_clusters\<close> must be at least 1, the data must hold at
  least one sample, and there must be at least \<^verbatim>\<open>n_clusters\<close> samples; each failure raises
  \<^verbatim>\<open>ValueError\<close>. The clustering itself (seeding and Lloyd iterations) is the parameter
  \<open>lloyd\<close>, applied as \<open>lloyd n_clusters random_state samples\<close> and returning the centres.
\<close>

definition KMeans_fit ::
  "(nat \<Rightarrow> nat \<Rightarrow> real list \<Rightarrow> real list) \<Rightarrow> nat \<Rightarrow> nat \<Rightarrow> real list \<Rightarrow> error + real list"
  where
  "KMeans_fit lloyd n_clusters random_state X =
     (if n_clusters < 1 then Inl ValueError
      else if length X < 1 then Inl ValueError
      else if length X < n_clusters then Inl ValueError
      else Inr (lloyd n_clusters random_state X))"

text \<open>Python's \<^verbatim>\<open>min\<close> of a sequence; it raises \<^verbatim>\<open>ValueError\<close> on an empty one.\<close>

fun py_min :: "real list \<Rightarrow> error + real" where
  "py_min [] = Inl ValueError"
| "py_min (x # xs) = Inr (fold min xs x)"

definition clustering ::
  "(nat \<Rightarrow> nat \<Rightarrow> real list \<Rightarrow> real list) \<Rightarrow> nat \<Rightarrow> nat \<Rightarrow> fl ndarray \<Rightarrow> error + fl" where
  "clustering lloyd n_clusters random_state a =
     (let valid_pixels = valid_samples (flat a)
      in case KMeans_fit lloyd n_clusters random_state valid_pixels of
           Inl e \<Rightarrow> Inl e
         | Inr cluster_centers \<Rightarrow>
            (case py_min cluster_centers of
               Inl e \<Rightarrow> Inl e
             | Inr c \<Rightarrow> Inr (Fin c)))"

subsection \<open>Step 5: multiplying the two rasters\<close>

text \<open>\<^verbatim>\<open>final_result = dfme_data * road_data\<close> on the two bands as read.\<close>

definition multiply :: "fl ndarray \<Rightarrow> fl ndarray \<Rightarrow> error + fl ndarray" where
  "multiply a b = array_array fl_mul a b"

subsection \<open>The notebook's variables and cells\<close>

text \<open>
  The cells share the kernel's global variables. Float arrays are objects in a store and a
  variable holds the address of one, so that an assignment through an index
  (\<^verbatim>\<open>dfme_data[...] = ...\<close>) changes the object, while \<^verbatim>\<open>read\<close>, an arithmetic operation or
  a library call makes a new one. A variable that was never assigned is \<open>None\<close>; reading it
  raises \<^verbatim>\<open>NameError\<close>.
\<close>

record notebook =
  heap :: "fl ndarray list"
  dfme_data :: "nat option"
  road_data :: "nat option"
  final_result :: "nat option"
  adaptive_threshold :: "nat option"
  dynamic_threshold :: "fl option"
  thresholded_dfme :: "8 word ndarray option"

definition new_array :: "fl ndarray \<Rightarrow> notebook \<Rightarrow> nat \<times> notebook" where
  "new_array a s = (length (heap s), s\<lparr>heap := heap s @ [a]\<rparr>)"

text \<open>\<^verbatim>\<open>dfme_data = src.read(1)\<close>\<close>

definition read_dfme :: "dataset \<Rightarrow> notebook \<Rightarrow> notebook" where
  "read_dfme src s = (case new_array (band1 src) s of (r, s') \<Rightarrow> s'\<lparr>dfme_data := Some r\<rparr>)"

text \<open>\<^verbatim>\<open>dfme_data[dfme_data == src.nodata] = np.nan  # Ignore NoData values\<close>\<close>

definition ignore_nodata :: "dataset \<Rightarrow> notebook \<Rightarrow> error + notebook" where
  "ignore_nodata src s =
     (case dfme_data s of
        None \<Rightarrow> Inl NameError
      | Some r \<Rightarrow> Inr (s\<lparr>heap := (heap s)[r := setitem_nodata_nan (heap s ! r) (nodata src)]\<rparr>))"

text \<open>
  The rest of the first cell up to the mask: mean, standard deviation, threshold, mask.
  Writing the mask to a file, which ends each thresholding cell, is outside the model.
\<close>

definition threshold_global_statistical ::
  "float_ops \<Rightarrow> real \<Rightarrow> notebook \<Rightarrow> error + notebook" where
  "threshold_global_statistical fp k s =
     (case dfme_data s of
        None \<Rightarrow> Inl NameError
      | Some r \<Rightarrow>
         (let a = heap s ! r;
              t = global_statistical fp k a
          in Inr (s\<lparr>dynamic_threshold := Some t,
                    thresholded_dfme := Some (less_scalar_uint8 a t)\<rparr>)))"

definition cell_global_statistical ::
  "float_ops \<Rightarrow> real \<Rightarrow> dataset \<Rightarrow> notebook \<Rightarrow> error + notebook" where
  "cell_global_statistical fp k src s =
     (case ignore_nodata src (read_dfme src s) of
        Inl e \<Rightarrow> Inl e
      | Inr s' \<Rightarrow> threshold_global_statistical fp k s')"

text \<open>The percentile cell works on the array the first cell left in \<^verbatim>\<open>dfme_data\<close>.\<close>

definition cell_percentile :: "float_ops \<Rightarrow> real \<Rightarrow> notebook \<Rightarrow> error + notebook" where
  "cell_percentile fp percentile_cutoff s =
     (case dfme_data s of
        None \<Rightarrow> Inl NameError
      | Some r \<Rightarrow>
         (let a = heap s ! r
          in case nanpercentile fp a percentile_cutoff of
               Inl e \<Rightarrow> Inl e
             | Inr t \<Rightarrow> Inr (s\<lparr>dynamic_threshold := Some t,
                               thresholded_dfme := Some (less_scalar_uint8 a t)\<rparr>)))"

text \<open>The local-adaptive cell; \<^verbatim>\<open>adaptive_threshold\<close> is a new array.\<close>

definition cell_local_adaptive ::
  "(real \<Rightarrow> nat \<Rightarrow> fl ndarray \<Rightarrow> fl ndarray) \<Rightarrow> int \<Rightarrow> real \<Rightarrow> notebook \<Rightarrow> error + notebook" where
  "cell_local_adaptive gaussian_filter1d block_size offset s =
     (case dfme_data s of
        None \<Rightarrow> Inl NameError
      | Some r \<Rightarrow>
         (let a = heap s ! r
          in case threshold_local gaussian_filter1d a block_size offset of
               Inl e \<Rightarrow> Inl e
             | Inr th \<Rightarrow>
                (case new_array th s of
                   (r', s') \<Rightarrow>
                     (case less_array_uint8 a th of
                        Inl e \<Rightarrow> Inl e
                      | Inr m \<Rightarrow> Inr (s'\<lparr>adaptive_threshold := Some r',
                                          thresholded_dfme := Some m\<rparr>)))))"

text \<open>The clustering cell.\<close>

definition cell_clustering ::
  "(nat \<Rightarrow> nat \<Rightarrow> real list \<Rightarrow> real list) \<Rightarrow> nat \<Rightarrow> nat \<Rightarrow> notebook \<Rightarrow> error + notebook" where
  "cell_clustering lloyd n_clusters random_state s =
     (case dfme_data s of
        None \<Rightarrow> Inl NameError
      | Some r \<Rightarrow>
         (let a = heap s ! r
          in case clustering lloyd n_clusters random_state a of
               Inl e \<Rightarrow> Inl e
             | Inr t \<Rightarrow> Inr (s\<lparr>dynamic_threshold := Some t,
                               thresholded_dfme := Some (less_scalar_uint8 a t)\<rparr>)))"

text \<open>
  Step 5: \<^verbatim>\<open>dfme_data = dfme.read(1)\<close>, \<^verbatim>\<open>road_data = road.read(1)\<close>,
  \<^verbatim>\<open>final_result = dfme_data * road_data\<close>.
\<close>

definition step5 :: "dataset \<Rightarrow> dataset \<Rightarrow> notebook \<Rightarrow> error + notebook" where
  "step5 dfme road s =
     (case new_array (band1 dfme) s of
        (r1, s1) \<Rightarrow>
          (case new_array (band1 road) (s1\<lparr>dfme_data := Some r1\<rparr>) of
             (r2, s2) \<Rightarrow>
               (case multiply (band1 dfme) (band1 road) of
                  Inl e \<Rightarrow> Inl e
                | Inr p \<Rightarrow>
                   (case new_array p (s2\<lparr>road_data := Some r2\<rparr>) of
                      (r3, s3) \<Rightarrow> Inr (s3\<lparr>final_result := Some r3\<rparr>)))))"

subsection \<open>Reference definitions\<close>

text \<open>
  The notions the specification names, written from its wording, for comparison with what
  the cells compute.
\<close>

text \<open>
  The mask the specification describes for a scalar threshold: 1 for a valid cell below the
  threshold, 0 for any other valid cell, and nodata (\<open>None\<close>) for a nodata cell.
\<close>

definition mask_with_nodata :: "fl ndarray \<Rightarrow> fl \<Rightarrow> 8 word option ndarray" where
  "mask_with_nodata a t =
     \<lparr>nrows = nrows a, ncols = ncols a,
      flat = map (\<lambda>v. if isnan v then None else Some (if fl_less v t then 1 else 0)) (flat a)\<rparr>"

text \<open>A cell is nodata when it is NaN or equals the raster's sentinel.\<close>

definition is_nodata :: "fl option \<Rightarrow> fl \<Rightarrow> bool" where
  "is_nodata nd v = (isnan v \<or> eq_nodata v nd)"

text \<open>
  The valid samples of a raster: the values that are not nodata and are finite, in raster
  order.
\<close>

definition valid_sample_view :: "dataset \<Rightarrow> real list" where
  "valid_sample_view src =
     valid_samples (filter (\<lambda>v. \<not> eq_nodata v (nodata src)) (flat (band1 src)))"

subsection \<open>Example inputs\<close>

text \<open>A 2 by 2 residual grid with one NaN cell, and a grid of per-cell thresholds.\<close>

definition ex_grid :: "fl ndarray" where
  "ex_grid = \<lparr>nrows = 2, ncols = 2, flat = [Fin (- 3 / 10), NaN, Fin (1 / 5), Fin (- 1 / 5)]\<rparr>"

definition ex_thresholds :: "fl ndarray" where
  "ex_thresholds = \<lparr>nrows = 2, ncols = 2, flat = [Fin 0, Fin 0, Fin 0, NaN]\<rparr>"

text \<open>A 1 by 2 raster whose first cell holds the nodata sentinel.\<close>

definition ex_src :: dataset where
  "ex_src = \<lparr>band1 = \<lparr>nrows = 1, ncols = 2, flat = [Fin (- 9999), Fin 5]\<rparr>,
             nodata = Some (Fin (- 9999))\<rparr>"

text \<open>Rasters for step 5: a candidate mask with a NaN cell, road masks, and single cells.\<close>

definition ex_candidate :: "fl ndarray" where
  "ex_candidate = \<lparr>nrows = 2, ncols = 2, flat = [Fin 1, Fin 0, NaN, Fin 1]\<rparr>"

definition ex_road :: "fl ndarray" where
  "ex_road = \<lparr>nrows = 2, ncols = 2, flat = [Fin 1, Fin 1, Fin 0, Fin 0]\<rparr>"

definition ex_road_3x3 :: "fl ndarray" where
  "ex_road_3x3 = \<lparr>nrows = 3, ncols = 3, flat = replicate 9 (Fin 1)\<rparr>"

definition ex_1x1 :: "fl ndarray" where
  "ex_1x1 = \<lparr>nrows = 1, ncols = 1, flat = [Fin 1]\<rparr>"

definition ex_sentinel :: "fl ndarray" where
  "ex_sentinel = \<lparr>nrows = 1, ncols = 1, flat = [Fin (- 32768)]\<rparr>"

definition ex_zero :: "fl ndarray" where
  "ex_zero = \<lparr>nrows = 1, ncols = 1, flat = [Fin 0]\<rparr>"

text \<open>A residual raster with one nodata cell between the values 1 and 3.\<close>

definition ex_dfme :: dataset where
  "ex_dfme = \<lparr>band1 = \<lparr>nrows = 1, ncols = 3, flat = [Fin 1, Fin (- 9999), Fin 3]\<rparr>,
              nodata = Some (Fin (- 9999))\<rparr>"

text \<open>
  Kernels without rounding, for the examples, whose samples and results are small integers
  and halves and so are exact in floating point: the mean, the population standard
  deviation, the percentile by linear interpolation at rank \<open>p / 100 * (n - 1)\<close> of the
  sorted samples, the product and the difference.
\<close>

definition mean :: "real list \<Rightarrow> real" where
  "mean xs = sum_list xs / real (length xs)"

definition population_std :: "real list \<Rightarrow> real" where
  "population_std xs = sqrt (sum_list (map (\<lambda>x. (x - mean xs)\<^sup>2) xs) / real (length xs))"

definition percentile_rank :: "real list \<Rightarrow> real \<Rightarrow> real" where
  "percentile_rank xs p = p / 100 * (real (length xs) - 1)"

definition percentile_linear :: "real list \<Rightarrow> real \<Rightarrow> real" where
  "percentile_linear xs p =
     (let s = sort xs;
          r = percentile_rank xs p;
          lower = s ! nat \<lfloor>r\<rfloor>;
          upper = s ! nat \<lceil>r\<rceil>
      in lower + (r - of_int \<lfloor>r\<rfloor>) * (upper - lower))"

definition exact_ops :: float_ops where
  "exact_ops =
     \<lparr>f_mean = (\<lambda>xs. Fin (mean xs)),
      f_std = (\<lambda>xs. Fin (population_std xs)),
      f_percentile = (\<lambda>xs p. Fin (percentile_linear xs p)),
      f_mul = (\<lambda>x y. Fin (x * y)),
      f_sub = (\<lambda>x y. Fin (x - y))\<rparr>"

text \<open>
  A stand-in for the one-dimensional filter in the examples: it returns its input.
\<close>

definition identity_filter1d :: "real \<Rightarrow> nat \<Rightarrow> fl ndarray \<Rightarrow> fl ndarray" where
  "identity_filter1d sigma axis input = input"

text \<open>
  An array whose every cell is NaN, and a raster with that band and no nodata value.
\<close>

definition ex_nan_row :: "fl ndarray" where
  "ex_nan_row = \<lparr>nrows = 1, ncols = 2, flat = [NaN, NaN]\<rparr>"

definition ex_all_nan :: dataset where
  "ex_all_nan = \<lparr>band1 = ex_nan_row, nodata = None\<rparr>"

text \<open>The kernel before any cell has run.\<close>

definition empty_notebook :: notebook where
  "empty_notebook = \<lparr>heap = [], dfme_data = None, road_data = None, final_result = None,
                      adaptive_threshold = None, dynamic_threshold = None,
                      thresholded_dfme = None\<rparr>"

text \<open>
  The kernel after \<^verbatim>\<open>dfme_data = src.read(1)\<close> on the example raster, and after the
  assignment that follows it.
\<close>

definition loaded_notebook :: notebook where
  "loaded_notebook = read_dfme ex_dfme empty_notebook"

definition marked_notebook :: notebook where
  "marked_notebook =
     \<lparr>heap = [\<lparr>nrows = 1, ncols = 3, flat = [Fin 1, NaN, Fin 3]\<rparr>],
      dfme_data = Some 0, road_data = None, final_result = None,
      adaptive_threshold = None, dynamic_threshold = None, thresholded_dfme = None\<rparr>"

text \<open>
  A stand-in for the clustering in the examples: it returns the first samples as centres.
\<close>

definition first_samples :: "nat \<Rightarrow> nat \<Rightarrow> real list \<Rightarrow> real list" where
  "first_samples n_clusters random_state X = take n_clusters X"

text \<open>The two rasters of step 5 as datasets without a nodata value.\<close>

definition ex_candidate_ds :: dataset where
  "ex_candidate_ds = \<lparr>band1 = ex_candidate, nodata = None\<rparr>"

definition ex_road_ds :: dataset where
  "ex_road_ds = \<lparr>band1 = ex_road, nodata = None\<rparr>"

section \<open>Properties\<close>

subsection \<open>Element-wise operations on arrays of one shape\<close>

lemma upt_split_rows: "[0..<h * w + w] = [0..<h * w] @ map (\<lambda>c. h * w + c) [0..<w]"
proof -
  have "[0..<h * w + w] = [0..<h * w] @ [h * w..<h * w + w]"
    by (rule upt_add_eq_append) simp
  moreover have "[h * w..<h * w + w] = map (\<lambda>c. h * w + c) [0..<w]"
    by (rule nth_equalityI) simp_all
  ultimately show ?thesis by simp
qed

lemma concat_rows:
  "concat (map (\<lambda>r. map (\<lambda>c. g (r * w + c)) [0..<w]) [0..<h]) = map g [0..<h * w]"
proof (induction h)
  case 0
  show ?case by simp
next
  case (Suc h)
  have "map g [0..<Suc h * w] = map g [0..<h * w] @ map (\<lambda>c. g (h * w + c)) [0..<w]"
    by (simp only: mult_Suc add.commute[of w] upt_split_rows map_append map_map comp_def)
  then show ?case using Suc by simp
qed

lemma bget_in_range:
  "r < nrows a \<Longrightarrow> c < ncols a \<Longrightarrow> bget a r c = flat a ! (r * ncols a + c)"
  by (auto simp: bget_def)

lemma broadcast_dim_same: "broadcast_dim n n = Some n"
  by (simp add: broadcast_dim_def)

lemma array_array_same_shape:
  assumes "same_shape a b" "wf_array a" "wf_array b"
  shows "array_array f a b =
           Inr \<lparr>nrows = nrows a, ncols = ncols a, flat = map2 f (flat a) (flat b)\<rparr>"
proof -
  let ?h = "nrows a" and ?w = "ncols a"
  have nb: "nrows b = ?h" "ncols b = ?w"
    using assms(1) by (simp_all add: same_shape_def)
  have la: "length (flat a) = ?h * ?w" and lb: "length (flat b) = ?h * ?w"
    using assms(2,3) nb by (simp_all add: wf_array_def)
  have "concat (map (\<lambda>r. map (\<lambda>c. f (bget a r c) (bget b r c)) [0..<?w]) [0..<?h])
          = concat (map (\<lambda>r. map (\<lambda>c. f (flat a ! (r * ?w + c)) (flat b ! (r * ?w + c))) [0..<?w])
                        [0..<?h])"
    by (intro arg_cong[where f = concat] map_cong refl) (simp add: bget_in_range nb)
  also have "\<dots> = map (\<lambda>i. f (flat a ! i) (flat b ! i)) [0..<?h * ?w]"
    by (rule concat_rows)
  also have "\<dots> = map2 f (flat a) (flat b)"
    using la lb by (intro nth_equalityI) simp_all
  finally have fl: "concat (map (\<lambda>r. map (\<lambda>c. f (bget a r c) (bget b r c)) [0..<?w]) [0..<?h])
          = map2 f (flat a) (flat b)" .
  show ?thesis
    unfolding array_array_def nb broadcast_dim_same option.case fl ..
qed

subsection \<open>The mask written by a thresholding cell\<close>

lemma flat_less_scalar_uint8:
  "flat (less_scalar_uint8 a t) = map (\<lambda>v. astype_uint8 (fl_less v t)) (flat a)"
  by (simp add: less_scalar_uint8_def array_scalar_def)

lemma astype_uint8_cases: "astype_uint8 b = 0 \<or> astype_uint8 b = 1"
  by (simp add: astype_uint8_def)

lemma astype_uint8_eq_1: "astype_uint8 b = 1 \<longleftrightarrow> b"
  by (simp add: astype_uint8_def)

lemma astype_uint8_eq_0: "astype_uint8 b = 0 \<longleftrightarrow> \<not> b"
  by (simp add: astype_uint8_def)

lemma fl_less_iff: "fl_less v t \<longleftrightarrow> (\<exists>x y. v = Fin x \<and> t = Fin y \<and> x < y)"
  by (cases v; cases t) simp_all

lemma fl_less_nan [simp]: "isnan v \<Longrightarrow> \<not> fl_less v t"
  by (cases v) simp_all

lemma less_array_uint8_cells:
  assumes "less_array_uint8 a th = Inr m"
  shows "\<forall>v \<in> set (flat m). v = 0 \<or> v = 1"
proof -
  obtain h w where
    m: "m = \<lparr>nrows = h, ncols = w,
              flat = concat (map (\<lambda>r. map (\<lambda>c. astype_uint8 (fl_less (bget a r c) (bget th r c)))
                                           [0..<w]) [0..<h])\<rparr>"
    using assms
    by (auto simp: less_array_uint8_def array_array_def split: option.splits)
  show ?thesis
    unfolding m using astype_uint8_cases by auto
qed

lemma less_array_uint8_same_shape:
  assumes "same_shape a th" "wf_array a" "wf_array th"
  shows "less_array_uint8 a th =
           Inr \<lparr>nrows = nrows a, ncols = ncols a,
                flat = map2 (\<lambda>v s. astype_uint8 (fl_less v s)) (flat a) (flat th)\<rparr>"
  unfolding less_array_uint8_def by (rule array_array_same_shape[OF assms])

lemma same_shape_length:
  "same_shape a th \<Longrightarrow> wf_array a \<Longrightarrow> wf_array th \<Longrightarrow> length (flat th) = length (flat a)"
  by (simp add: same_shape_def wf_array_def)

text \<open>
  C10. Whatever the threshold (a scalar, or a grid of per-cell thresholds), every cell of the
  mask \<^verbatim>\<open>(dfme_data < threshold).astype("uint8")\<close> is 0 or 1, and a NaN input cell is
  written as 0: the comparison with NaN is false. With a grid of the input's shape the
  comparison does not fail and the mask has that shape.
\<close>

theorem mask_cells_zero_or_one:
  "(\<forall>v \<in> set (flat (less_scalar_uint8 a t)). v = 0 \<or> v = 1) \<and>
   (\<forall>i < length (flat a). isnan (flat a ! i) \<longrightarrow> flat (less_scalar_uint8 a t) ! i = 0) \<and>
   (\<forall>m. less_array_uint8 a th = Inr m \<longrightarrow> (\<forall>v \<in> set (flat m). v = 0 \<or> v = 1)) \<and>
   (same_shape a th \<and> wf_array a \<and> wf_array th \<longrightarrow>
      (\<exists>m. less_array_uint8 a th = Inr m \<and> same_shape m a \<and> wf_array m \<and>
           (\<forall>i < length (flat a). isnan (flat a ! i) \<longrightarrow> flat m ! i = 0)))"
proof (intro conjI)
  show "\<forall>v \<in> set (flat (less_scalar_uint8 a t)). v = 0 \<or> v = 1"
    using astype_uint8_cases by (auto simp: flat_less_scalar_uint8)
  show "\<forall>i < length (flat a). isnan (flat a ! i) \<longrightarrow> flat (less_scalar_uint8 a t) ! i = 0"
    by (simp add: flat_less_scalar_uint8 astype_uint8_eq_0)
  show "\<forall>m. less_array_uint8 a th = Inr m \<longrightarrow> (\<forall>v \<in> set (flat m). v = 0 \<or> v = 1)"
    using less_array_uint8_cells by blast
  show "same_shape a th \<and> wf_array a \<and> wf_array th \<longrightarrow>
      (\<exists>m. less_array_uint8 a th = Inr m \<and> same_shape m a \<and> wf_array m \<and>
           (\<forall>i < length (flat a). isnan (flat a ! i) \<longrightarrow> flat m ! i = 0))"
  proof
    assume h: "same_shape a th \<and> wf_array a \<and> wf_array th"
    then have len: "length (flat th) = length (flat a)"
      by (simp add: same_shape_length)
    from h have "length (flat a) = nrows a * ncols a"
      by (simp add: wf_array_def)
    then show "\<exists>m. less_array_uint8 a th = Inr m \<and> same_shape m a \<and> wf_array m \<and>
           (\<forall>i < length (flat a). isnan (flat a ! i) \<longrightarrow> flat m ! i = 0)"
      using h len
      by (simp add: less_array_uint8_same_shape same_shape_def wf_array_def astype_uint8_eq_0)
  qed
qed

theorem mask_cells_zero_or_one_witness:
  "same_shape ex_grid ex_thresholds \<and> wf_array ex_grid \<and> wf_array ex_thresholds \<and>
   isnan (flat ex_grid ! 1) \<and>
   set (flat (less_scalar_uint8 ex_grid (Fin (- 3 / 20)))) \<subseteq> {0, 1} \<and>
   flat (less_scalar_uint8 ex_grid (Fin (- 3 / 20))) ! 1 = 0 \<and>
   (\<exists>m. less_array_uint8 ex_grid ex_thresholds = Inr m \<and> flat m ! 1 = 0 \<and>
        set (flat m) \<subseteq> {0, 1})"
proof -
  have hyp: "same_shape ex_grid ex_thresholds \<and> wf_array ex_grid \<and> wf_array ex_thresholds"
    by (simp add: same_shape_def wf_array_def ex_grid_def ex_thresholds_def)
  have nan: "isnan (flat ex_grid ! 1)" and len: "1 < length (flat ex_grid)"
    by (simp_all add: ex_grid_def)
  from mask_cells_zero_or_one[of ex_grid "Fin (- 3 / 20)" ex_thresholds] hyp nan len
  show ?thesis by blast
qed

subsection \<open>C2: the mask for a scalar threshold\<close>

text \<open>
  C2, as claimed, asks that a nodata input cell stays nodata in the mask. The cell writes 0
  there: after the sentinel is overwritten with NaN, the comparison is false and the cast
  to \<^verbatim>\<open>uint8\<close> stores 0, the value it also stores for a valid cell that is not below the
  threshold.
\<close>

theorem mask_nodata_counterexample:
  "flat (setitem_nodata_nan (band1 ex_src) (nodata ex_src)) = [NaN, Fin 5] \<and>
   flat (less_scalar_uint8 (setitem_nodata_nan (band1 ex_src) (nodata ex_src)) (Fin 0)) = [0, 0] \<and>
   flat (mask_with_nodata (setitem_nodata_nan (band1 ex_src) (nodata ex_src)) (Fin 0))
     = [None, Some 0]"
  by (simp add: ex_src_def setitem_nodata_nan_def eq_nodata_def flat_less_scalar_uint8
      astype_uint8_def mask_with_nodata_def)

text \<open>
  C2, amended. For a scalar threshold \<open>t\<close> the mask has the input's shape, and a cell of it
  is 1 exactly when the input cell is a number strictly below \<open>t\<close> (an input equal to \<open>t\<close>
  gives 0); every other cell is 0, a NaN (nodata) cell included.
\<close>

theorem mask_scalar_cells:
  "same_shape (less_scalar_uint8 a t) a \<and>
   length (flat (less_scalar_uint8 a t)) = length (flat a) \<and>
   (\<forall>i < length (flat a).
      (flat (less_scalar_uint8 a t) ! i = 1
         \<longleftrightarrow> (\<exists>x y. flat a ! i = Fin x \<and> t = Fin y \<and> x < y)) \<and>
      (flat (less_scalar_uint8 a t) ! i = 0
         \<longleftrightarrow> \<not> (\<exists>x y. flat a ! i = Fin x \<and> t = Fin y \<and> x < y)) \<and>
      (isnan (flat a ! i) \<longrightarrow> flat (less_scalar_uint8 a t) ! i = 0))"
proof (intro conjI allI impI)
  show "same_shape (less_scalar_uint8 a t) a"
    by (simp add: same_shape_def less_scalar_uint8_def array_scalar_def)
  show "length (flat (less_scalar_uint8 a t)) = length (flat a)"
    by (simp add: flat_less_scalar_uint8)
next
  fix i assume i: "i < length (flat a)"
  show "flat (less_scalar_uint8 a t) ! i = 1
         \<longleftrightarrow> (\<exists>x y. flat a ! i = Fin x \<and> t = Fin y \<and> x < y)"
    using i by (simp add: flat_less_scalar_uint8 astype_uint8_eq_1 fl_less_iff)
  show "flat (less_scalar_uint8 a t) ! i = 0
         \<longleftrightarrow> \<not> (\<exists>x y. flat a ! i = Fin x \<and> t = Fin y \<and> x < y)"
    using i by (simp add: flat_less_scalar_uint8 astype_uint8_eq_0 fl_less_iff)
  show "flat (less_scalar_uint8 a t) ! i = 0" if "isnan (flat a ! i)"
    using i that by (simp add: flat_less_scalar_uint8 astype_uint8_eq_0)
qed

theorem mask_scalar_cells_witness:
  "flat ex_grid ! 0 = Fin (- 3 / 10) \<and> flat ex_grid ! 1 = NaN \<and> flat ex_grid ! 2 = Fin (1 / 5) \<and>
   flat (less_scalar_uint8 ex_grid (Fin (- 3 / 20))) ! 0 = 1 \<and>
   flat (less_scalar_uint8 ex_grid (Fin (- 3 / 20))) ! 1 = 0 \<and>
   flat (less_scalar_uint8 ex_grid (Fin (- 3 / 20))) ! 2 = 0"
proof -
  have c: "flat ex_grid ! 0 = Fin (- 3 / 10)" "flat ex_grid ! 1 = NaN"
    "flat ex_grid ! 2 = Fin (1 / 5)"
    and len: "0 < length (flat ex_grid)" "1 < length (flat ex_grid)" "2 < length (flat ex_grid)"
    by (simp_all add: ex_grid_def)
  note th = mask_scalar_cells[of ex_grid "Fin (- 3 / 20)"]
  have "flat (less_scalar_uint8 ex_grid (Fin (- 3 / 20))) ! 0 = 1"
    using th len(1) c(1) by simp
  moreover have "flat (less_scalar_uint8 ex_grid (Fin (- 3 / 20))) ! 1 = 0"
    using th len(2) c(2) by simp
  moreover have "flat (less_scalar_uint8 ex_grid (Fin (- 3 / 20))) ! 2 = 0"
    using th len(3) c(3) by simp
  ultimately show ?thesis using c by simp
qed

subsection \<open>C3: the product of step 5\<close>

lemma broadcast_dim_None:
  "broadcast_dim m n = None \<longleftrightarrow> m \<noteq> n \<and> m \<noteq> 1 \<and> n \<noteq> 1"
  by (simp add: broadcast_dim_def)

lemma array_array_fails:
  "array_array f a b = Inl e \<longleftrightarrow>
     e = ValueError \<and> (broadcast_dim (nrows a) (nrows b) = None \<or> broadcast_dim (ncols a) (ncols b) = None)"
  by (auto simp: array_array_def split: option.splits)

lemma fl_mul_nan: "isnan x \<or> isnan y \<Longrightarrow> isnan (fl_mul x y)"
  by (cases x; cases y) simp_all

text \<open>
  C3, amended. The product fails, with \<^verbatim>\<open>ValueError\<close>, exactly when along some axis the two
  lengths differ and neither is 1. For two arrays of one shape it does not fail, the result
  has that shape, each cell is the product of the two input cells, and it is NaN when
  either input cell is NaN.
\<close>

theorem multiply_cells:
  "(multiply a b = Inl ValueError \<longleftrightarrow>
      (nrows a \<noteq> nrows b \<and> nrows a \<noteq> 1 \<and> nrows b \<noteq> 1) \<or>
      (ncols a \<noteq> ncols b \<and> ncols a \<noteq> 1 \<and> ncols b \<noteq> 1)) \<and>
   (same_shape a b \<and> wf_array a \<and> wf_array b \<longrightarrow>
      (\<exists>c. multiply a b = Inr c \<and> same_shape c a \<and> wf_array c \<and>
           (\<forall>i < length (flat a).
              flat c ! i = fl_mul (flat a ! i) (flat b ! i) \<and>
              (isnan (flat a ! i) \<or> isnan (flat b ! i) \<longrightarrow> isnan (flat c ! i)))))"
proof (intro conjI impI)
  show "multiply a b = Inl ValueError \<longleftrightarrow>
      (nrows a \<noteq> nrows b \<and> nrows a \<noteq> 1 \<and> nrows b \<noteq> 1) \<or>
      (ncols a \<noteq> ncols b \<and> ncols a \<noteq> 1 \<and> ncols b \<noteq> 1)"
    by (simp add: multiply_def array_array_fails broadcast_dim_None)
next
  assume h: "same_shape a b \<and> wf_array a \<and> wf_array b"
  let ?c = "\<lparr>nrows = nrows a, ncols = ncols a, flat = map2 fl_mul (flat a) (flat b)\<rparr>"
  have len: "length (flat b) = length (flat a)"
    using h by (simp add: same_shape_length)
  have "multiply a b = Inr ?c"
    unfolding multiply_def using h by (simp add: array_array_same_shape)
  moreover have "same_shape ?c a" "wf_array ?c"
    using h len by (simp_all add: same_shape_def wf_array_def)
  moreover have "\<forall>i < length (flat a).
              flat ?c ! i = fl_mul (flat a ! i) (flat b ! i) \<and>
              (isnan (flat a ! i) \<or> isnan (flat b ! i) \<longrightarrow> isnan (flat ?c ! i))"
    using len by (simp add: fl_mul_nan)
  ultimately show "\<exists>c. multiply a b = Inr c \<and> same_shape c a \<and> wf_array c \<and>
           (\<forall>i < length (flat a).
              flat c ! i = fl_mul (flat a ! i) (flat b ! i) \<and>
              (isnan (flat a ! i) \<or> isnan (flat b ! i) \<longrightarrow> isnan (flat c ! i)))"
    by blast
qed

text \<open>
  C3, as claimed, fails twice. A 1 by 1 raster and a 2 by 2 raster differ in shape, yet the
  product is the 2 by 2 raster broadcast, not an error. And a cell holding the sentinel
  -32768 times a road cell 0 is 0, which is not nodata: step 5 multiplies the bands as read.
\<close>

theorem multiply_counterexample:
  "\<not> same_shape ex_1x1 ex_road \<and>
   multiply ex_1x1 ex_road = Inr \<lparr>nrows = 2, ncols = 2, flat = [Fin 1, Fin 1, Fin 0, Fin 0]\<rparr> \<and>
   is_nodata (Some (Fin (- 32768))) (flat ex_sentinel ! 0) \<and>
   multiply ex_sentinel ex_zero = Inr \<lparr>nrows = 1, ncols = 1, flat = [Fin 0]\<rparr> \<and>
   \<not> is_nodata (Some (Fin (- 32768))) (Fin 0)"
  by (simp add: multiply_def array_array_def broadcast_dim_def bget_def same_shape_def
      ex_1x1_def ex_road_def ex_sentinel_def ex_zero_def is_nodata_def eq_nodata_def
      upt_rec numeral_nat)

theorem multiply_cells_witness:
  "same_shape ex_candidate ex_road \<and> wf_array ex_candidate \<and> wf_array ex_road \<and>
   multiply ex_road_3x3 ex_road = Inl ValueError \<and>
   (\<exists>c. multiply ex_candidate ex_road = Inr c \<and>
        flat c ! 0 = Fin 1 \<and> flat c ! 1 = Fin 0 \<and> flat c ! 2 = NaN \<and> flat c ! 3 = Fin 0)"
proof -
  have hyp: "same_shape ex_candidate ex_road \<and> wf_array ex_candidate \<and> wf_array ex_road"
    by (simp add: same_shape_def wf_array_def ex_candidate_def ex_road_def)
  have shp: "nrows ex_road_3x3 \<noteq> nrows ex_road \<and> nrows ex_road_3x3 \<noteq> 1 \<and> nrows ex_road \<noteq> 1"
    by (simp add: ex_road_3x3_def ex_road_def)
  have cells: "flat ex_candidate = [Fin 1, Fin 0, NaN, Fin 1]" "flat ex_road = [Fin 1, Fin 1, Fin 0, Fin 0]"
    by (simp_all add: ex_candidate_def ex_road_def)
  have fails: "multiply ex_road_3x3 ex_road = Inl ValueError"
    using multiply_cells[of ex_road_3x3 ex_road] shp by blast
  from multiply_cells[of ex_candidate ex_road] hyp
  obtain c where c: "multiply ex_candidate ex_road = Inr c"
    "\<forall>i < length (flat ex_candidate). flat c ! i = fl_mul (flat ex_candidate ! i) (flat ex_road ! i)"
    by blast
  have "flat c ! 0 = Fin 1" "flat c ! 1 = Fin 0" "flat c ! 2 = NaN" "flat c ! 3 = Fin 0"
    using c(2) by (simp_all add: cells)
  with c(1) hyp fails show ?thesis by blast
qed

subsection \<open>The valid samples after the nodata assignment\<close>

lemma valid_samples_ignore_nodata:
  "valid_samples (map (\<lambda>v. if eq_nodata v nd then NaN else v) vs)
     = valid_samples (filter (\<lambda>v. \<not> eq_nodata v nd) vs)"
proof (induction vs)
  case Nil
  show ?case by simp
next
  case (Cons v vs)
  then show ?case by (cases v) simp_all
qed

lemma valid_samples_setitem:
  "valid_samples (flat (setitem_nodata_nan (band1 src) (nodata src))) = valid_sample_view src"
  by (simp add: setitem_nodata_nan_def valid_sample_view_def valid_samples_ignore_nodata)

subsection \<open>C7 and C8: the block size of the local adaptive threshold\<close>

lemma gaussian_filter_small_sigma:
  "sigma \<le> 0 \<Longrightarrow> gaussian_filter g input sigma = input"
  by (simp add: gaussian_filter_def)

lemma threshold_local_even:
  "even block_size \<Longrightarrow> threshold_local g img block_size offset = Inl ValueError"
  by (simp add: threshold_local_def even_iff_mod_2_eq_zero)

lemma threshold_local_steps:
  "odd block_size \<Longrightarrow>
     threshold_local g img block_size offset
       = (case gaussian g img ((real_of_int block_size - 1) / 6) of
            Inl e \<Rightarrow> Inl e
          | Inr thresh_image \<Rightarrow> Inr (array_scalar fl_sub thresh_image (Fin offset)))"
  unfolding threshold_local_def Let_def by (simp add: odd_iff_mod_2_eq_one)

lemma threshold_local_odd_positive:
  assumes "odd block_size" "0 < block_size"
  shows "threshold_local g img block_size offset
           = Inr (array_scalar fl_sub
                   (gaussian_filter g img ((real_of_int block_size - 1) / 6)) (Fin offset))"
proof -
  have "\<not> (real_of_int block_size - 1) / 6 < 0"
    using assms(2) by simp
  then have "gaussian g img ((real_of_int block_size - 1) / 6)
               = Inr (gaussian_filter g img ((real_of_int block_size - 1) / 6))"
    unfolding gaussian_def by (rule if_not_P)
  then show ?thesis
    unfolding threshold_local_steps[OF assms(1)] by (simp only: sum.case)
qed

lemma threshold_local_odd_negative:
  assumes "odd block_size" "block_size \<le> 0"
  shows "threshold_local g img block_size offset = Inl ValueError"
proof -
  have "(real_of_int block_size - 1) / 6 < 0"
    using assms(2) by simp
  then have "gaussian g img ((real_of_int block_size - 1) / 6) = Inl ValueError"
    unfolding gaussian_def by (rule if_P)
  then show ?thesis
    unfolding threshold_local_steps[OF assms(1)] by (simp only: sum.case)
qed

text \<open>
  C7. \<^verbatim>\<open>threshold_local\<close> fails, with \<^verbatim>\<open>ValueError\<close>, whenever the block size is even (10 is
  rejected), and it returns a grid exactly for the block sizes that are positive and odd:
  an odd block size below zero gives a negative sigma, which is rejected too.
\<close>

theorem threshold_local_accepts_positive_odd:
  "(even block_size \<longrightarrow> threshold_local g img block_size offset = Inl ValueError) \<and>
   ((\<exists>th. threshold_local g img block_size offset = Inr th)
      \<longleftrightarrow> 0 < block_size \<and> odd block_size)"
proof (cases "even block_size")
  case True
  then have "threshold_local g img block_size offset = Inl ValueError"
    by (rule threshold_local_even)
  with True show ?thesis by simp
next
  case odd: False
  show ?thesis
  proof (cases "0 < block_size")
    case True
    from threshold_local_odd_positive[OF odd True, of g img offset]
    have "\<exists>th. threshold_local g img block_size offset = Inr th" by blast
    with odd True show ?thesis by blast
  next
    case False
    then have "block_size \<le> 0" by simp
    from threshold_local_odd_negative[OF odd this, of g img offset]
    have "threshold_local g img block_size offset = Inl ValueError" .
    with odd False show ?thesis by simp
  qed
qed

theorem threshold_local_accepts_positive_odd_witness:
  "even (10 :: int) \<and> 0 < notebook_block_size \<and> odd notebook_block_size \<and>
   threshold_local identity_filter1d ex_grid 10 0 = Inl ValueError \<and>
   \<not> (\<exists>th. threshold_local identity_filter1d ex_grid (- 1) 0 = Inr th) \<and>
   (\<exists>th. threshold_local identity_filter1d ex_grid notebook_block_size 0 = Inr th)"
proof -
  have e: "even (10 :: int)" and d: "0 < notebook_block_size \<and> odd notebook_block_size"
    by (simp_all add: notebook_block_size_def)
  from threshold_local_accepts_positive_odd[of 10 identity_filter1d ex_grid 0] e
  have r10: "threshold_local identity_filter1d ex_grid 10 0 = Inl ValueError"
    by blast
  from threshold_local_accepts_positive_odd[of "- 1" identity_filter1d ex_grid 0]
  have rm: "\<not> (\<exists>th. threshold_local identity_filter1d ex_grid (- 1) 0 = Inr th)"
    by simp
  from threshold_local_accepts_positive_odd[of notebook_block_size identity_filter1d ex_grid 0] d
  have "\<exists>th. threshold_local identity_filter1d ex_grid notebook_block_size 0 = Inr th"
    by blast
  with e d r10 rm show ?thesis by blast
qed

text \<open>
  C8. With block size 1 sigma is 0, which is accepted, no axis is filtered, and \<^verbatim>\<open>threshold_local\<close> returns a
  grid of the input's shape whose value at each valid cell is that cell's own value minus
  the offset.
\<close>

theorem threshold_local_block_size_1:
  "threshold_local g img 1 offset = Inr (array_scalar fl_sub img (Fin offset)) \<and>
   same_shape (array_scalar fl_sub img (Fin offset)) img \<and>
   (\<forall>i < length (flat img). \<forall>v. flat img ! i = Fin v \<longrightarrow>
      flat (array_scalar fl_sub img (Fin offset)) ! i = Fin (v - offset))"
proof (intro conjI allI impI)
  show "threshold_local g img 1 offset = Inr (array_scalar fl_sub img (Fin offset))"
    by (simp add: threshold_local_odd_positive gaussian_filter_small_sigma)
  show "same_shape (array_scalar fl_sub img (Fin offset)) img"
    by (simp add: same_shape_def array_scalar_def)
  show "flat (array_scalar fl_sub img (Fin offset)) ! i = Fin (v - offset)"
    if "i < length (flat img)" "flat img ! i = Fin v" for i v
    using that by (simp add: array_scalar_def)
qed

theorem threshold_local_block_size_1_witness:
  "flat ex_grid ! 2 = Fin (1 / 5) \<and>
   (\<exists>th. threshold_local identity_filter1d ex_grid 1 (1 / 10) = Inr th \<and>
         flat th ! 2 = Fin (1 / 10))"
proof -
  have c: "flat ex_grid ! 2 = Fin (1 / 5)" and len: "2 < length (flat ex_grid)"
    by (simp_all add: ex_grid_def)
  from threshold_local_block_size_1[of identity_filter1d ex_grid "1 / 10"] c len
  have "threshold_local identity_filter1d ex_grid 1 (1 / 10)
          = Inr (array_scalar fl_sub ex_grid (Fin (1 / 10)))"
    and "flat (array_scalar fl_sub ex_grid (Fin (1 / 10))) ! 2 = Fin (1 / 5 - 1 / 10)"
    by blast+
  then show ?thesis using c by simp
qed

subsection \<open>C4: a raster without valid samples\<close>

lemma less_scalar_nan: "flat (less_scalar_uint8 a NaN) = replicate (length (flat a)) 0"
proof -
  have "fl_less v NaN = False" for v by (cases v) simp_all
  then show ?thesis
    by (simp add: flat_less_scalar_uint8 astype_uint8_def map_replicate_const)
qed

lemma clustering_empty:
  "valid_samples (flat a) = [] \<Longrightarrow> clustering lloyd n_clusters random_state a = Inl ValueError"
  by (simp add: clustering_def KMeans_fit_def)

lemma nanpercentile_empty:
  "valid_samples (flat a) = [] \<Longrightarrow> 0 \<le> p \<Longrightarrow> p \<le> 100 \<Longrightarrow> nanpercentile fp a p = Inr NaN"
  by (simp add: nanpercentile_def)

lemma global_statistical_empty:
  "valid_samples (flat a) = [] \<Longrightarrow> global_statistical fp k a = NaN"
  by (simp add: global_statistical_def nanmean_def)

text \<open>
  C4, amended. On an array without a valid sample only the clustering fails, with the
  \<^verbatim>\<open>ValueError\<close> of \<^verbatim>\<open>KMeans.fit\<close> on zero samples. The global statistical threshold is NaN,
  the percentile (for a cutoff in range) is NaN, the local adaptive threshold (for a
  positive odd block size) is a grid: none of the three fails. The mask built with the NaN
  threshold is 0 in every cell.
\<close>

theorem empty_view_only_clustering_fails:
  assumes "valid_samples (flat a) = []"
  shows "global_statistical fp k a = NaN \<and>
         (0 \<le> p \<and> p \<le> 100 \<longrightarrow> nanpercentile fp a p = Inr NaN) \<and>
         (odd block_size \<and> 0 < block_size \<longrightarrow>
            (\<exists>th. threshold_local g a block_size offset = Inr th)) \<and>
         clustering lloyd n_clusters random_state a = Inl ValueError \<and>
         flat (less_scalar_uint8 a NaN) = replicate (length (flat a)) 0"
proof (intro conjI impI)
  show "global_statistical fp k a = NaN"
    using assms by (rule global_statistical_empty)
  show "nanpercentile fp a p = Inr NaN" if "0 \<le> p \<and> p \<le> 100"
    using assms that by (simp add: nanpercentile_empty)
  show "\<exists>th. threshold_local g a block_size offset = Inr th" if "odd block_size \<and> 0 < block_size"
    using threshold_local_odd_positive[of block_size g a offset] that by blast
  show "clustering lloyd n_clusters random_state a = Inl ValueError"
    using assms by (rule clustering_empty)
  show "flat (less_scalar_uint8 a NaN) = replicate (length (flat a)) 0"
    by (rule less_scalar_nan)
qed

theorem empty_view_only_clustering_fails_witness:
  "valid_samples (flat ex_nan_row) = [] \<and> (0::real) \<le> 5 \<and> (5::real) \<le> 100 \<and>
   odd notebook_block_size \<and> 0 < notebook_block_size \<and>
   global_statistical exact_ops notebook_factor ex_nan_row = NaN \<and>
   nanpercentile exact_ops ex_nan_row notebook_percentile_cutoff = Inr NaN \<and>
   (\<exists>th. threshold_local identity_filter1d ex_nan_row notebook_block_size 0 = Inr th) \<and>
   clustering first_samples 3 42 ex_nan_row = Inl ValueError \<and>
   flat (less_scalar_uint8 ex_nan_row NaN) = [0, 0]"
proof -
  have e: "valid_samples (flat ex_nan_row) = []"
    by (simp add: ex_nan_row_def)
  have d: "odd notebook_block_size \<and> 0 < notebook_block_size"
    by (simp add: notebook_block_size_def)
  have l: "replicate (length (flat ex_nan_row)) (0 :: 8 word) = [0, 0]"
    by (simp add: ex_nan_row_def numeral_2_eq_2)
  from empty_view_only_clustering_fails[OF e, of exact_ops notebook_factor
      notebook_percentile_cutoff notebook_block_size identity_filter1d 0 first_samples 3 42]
  show ?thesis
    using e d l by (simp add: notebook_percentile_cutoff_def)
qed

text \<open>
  C4, as claimed, has every strategy fail on a raster without valid samples. On a raster
  whose two cells are NaN the statements of the first cell, from the read to the mask,
  raise nothing: the threshold they compute is NaN and the mask is zero.
\<close>

theorem empty_view_counterexample:
  "valid_sample_view ex_all_nan = [] \<and>
   cell_global_statistical exact_ops notebook_factor ex_all_nan empty_notebook
     = Inr \<lparr>heap = [\<lparr>nrows = 1, ncols = 2, flat = [NaN, NaN]\<rparr>],
            dfme_data = Some 0, road_data = None, final_result = None,
            adaptive_threshold = None, dynamic_threshold = Some NaN,
            thresholded_dfme = Some \<lparr>nrows = 1, ncols = 2, flat = [0, 0]\<rparr>\<rparr>"
  by (simp add: valid_sample_view_def ex_all_nan_def ex_nan_row_def empty_notebook_def
      eq_nodata_def cell_global_statistical_def ignore_nodata_def read_dfme_def new_array_def
      setitem_nodata_nan_def threshold_global_statistical_def global_statistical_def
      nanmean_def less_scalar_uint8_def array_scalar_def astype_uint8_def)

subsection \<open>C9: what the cells change\<close>

lemma cell_percentile_heap:
  "cell_percentile fp p s = Inr s' \<Longrightarrow> heap s' = heap s"
  by (auto simp: cell_percentile_def Let_def split: option.splits sum.splits)

lemma cell_clustering_heap:
  "cell_clustering lloyd n_clusters random_state s = Inr s' \<Longrightarrow> heap s' = heap s"
  by (auto simp: cell_clustering_def Let_def split: option.splits sum.splits)

lemma threshold_global_statistical_heap:
  "threshold_global_statistical fp k s = Inr s' \<Longrightarrow> heap s' = heap s"
  by (auto simp: threshold_global_statistical_def Let_def split: option.splits)

lemma cell_local_adaptive_heap:
  "cell_local_adaptive g block_size offset s = Inr s' \<Longrightarrow> \<exists>th. heap s' = heap s @ [th]"
  by (auto simp: cell_local_adaptive_def new_array_def Let_def
      split: option.splits sum.splits)

lemma step5_heap:
  "step5 dfme road s = Inr s' \<Longrightarrow> \<exists>p. heap s' = heap s @ [band1 dfme, band1 road, p]"
  by (auto simp: step5_def new_array_def split: sum.splits)

lemma read_dfme_heap:
  "heap (read_dfme src s) = heap s @ [band1 src] \<and>
   dfme_data (read_dfme src s) = Some (length (heap s))"
  by (simp add: read_dfme_def new_array_def)

lemma ignore_nodata_heap:
  assumes "ignore_nodata src s = Inr s'" "dfme_data s = Some r"
  shows "heap s' = (heap s)[r := setitem_nodata_nan (heap s ! r) (nodata src)]"
    and "dfme_data s' = Some r"
  using assms by (auto simp: ignore_nodata_def)

lemma cell_global_statistical_heap:
  assumes "cell_global_statistical fp k src s = Inr s'"
  shows "heap s' = heap s @ [setitem_nodata_nan (band1 src) (nodata src)]"
proof -
  obtain s1 where s1: "ignore_nodata src (read_dfme src s) = Inr s1"
    and s': "threshold_global_statistical fp k s1 = Inr s'"
    using assms by (auto simp: cell_global_statistical_def split: sum.splits)
  have "heap s1 = heap s @ [setitem_nodata_nan (band1 src) (nodata src)]"
    using ignore_nodata_heap(1)[OF s1 conjunct2[OF read_dfme_heap]]
    by (simp add: read_dfme_heap)
  then show ?thesis
    using threshold_global_statistical_heap[OF s'] by simp
qed

lemma flat_setitem_nth:
  "i < length (flat a) \<Longrightarrow>
     flat (setitem_nodata_nan a nd) ! i = (if eq_nodata (flat a ! i) nd then NaN else flat a ! i)"
  by (simp add: setitem_nodata_nan_def)

text \<open>
  C9, amended. The thresholding of the first cell, the percentile cell and the clustering
  cell leave the store as it is; the local-adaptive cell and step 5 only add new arrays to
  it, and so does \<^verbatim>\<open>read\<close>. The first cell as a whole adds one array, the band with its
  nodata cells overwritten. The one assignment that changes an existing array is
  \<^verbatim>\<open>dfme_data[dfme_data == src.nodata] = np.nan\<close>: the array bound to \<^verbatim>\<open>dfme_data\<close> keeps
  its address and shape, its cells equal to the nodata value become NaN, and its other
  cells keep their values.
\<close>

theorem arrays_unchanged_except_nodata:
  "(\<forall>s'. cell_global_statistical fp k src s = Inr s' \<longrightarrow>
      heap s' = heap s @ [setitem_nodata_nan (band1 src) (nodata src)]) \<and>
   (\<forall>s'. threshold_global_statistical fp k s = Inr s' \<longrightarrow> heap s' = heap s) \<and>
   (\<forall>s'. cell_percentile fp p s = Inr s' \<longrightarrow> heap s' = heap s) \<and>
   (\<forall>s'. cell_clustering lloyd n_clusters random_state s = Inr s' \<longrightarrow> heap s' = heap s) \<and>
   (\<forall>s'. cell_local_adaptive g block_size offset s = Inr s' \<longrightarrow> (\<exists>th. heap s' = heap s @ [th])) \<and>
   (\<forall>s'. step5 dfme road s = Inr s' \<longrightarrow> (\<exists>p. heap s' = heap s @ [band1 dfme, band1 road, p])) \<and>
   heap (read_dfme src s) = heap s @ [band1 src] \<and>
   (\<forall>s' r. ignore_nodata src s = Inr s' \<and> dfme_data s = Some r \<and> r < length (heap s) \<longrightarrow>
      dfme_data s' = Some r \<and>
      heap s' = (heap s)[r := setitem_nodata_nan (heap s ! r) (nodata src)] \<and>
      same_shape (heap s' ! r) (heap s ! r) \<and>
      (\<forall>i < length (flat (heap s ! r)).
         flat (heap s' ! r) ! i
           = (if eq_nodata (flat (heap s ! r) ! i) (nodata src) then NaN
              else flat (heap s ! r) ! i)))"
proof (intro conjI allI impI)
  fix s' assume "cell_global_statistical fp k src s = Inr s'"
  then show "heap s' = heap s @ [setitem_nodata_nan (band1 src) (nodata src)]"
    by (rule cell_global_statistical_heap)
next
  fix s' assume "threshold_global_statistical fp k s = Inr s'"
  then show "heap s' = heap s" by (rule threshold_global_statistical_heap)
next
  fix s' assume "cell_percentile fp p s = Inr s'"
  then show "heap s' = heap s" by (rule cell_percentile_heap)
next
  fix s' assume "cell_clustering lloyd n_clusters random_state s = Inr s'"
  then show "heap s' = heap s" by (rule cell_clustering_heap)
next
  fix s' assume "cell_local_adaptive g block_size offset s = Inr s'"
  then show "\<exists>th. heap s' = heap s @ [th]" by (rule cell_local_adaptive_heap)
next
  fix s' assume "step5 dfme road s = Inr s'"
  then show "\<exists>p. heap s' = heap s @ [band1 dfme, band1 road, p]" by (rule step5_heap)
next
  show "heap (read_dfme src s) = heap s @ [band1 src]"
    by (simp add: read_dfme_heap)
next
  fix s' r
  assume h: "ignore_nodata src s = Inr s' \<and> dfme_data s = Some r \<and> r < length (heap s)"
  then have hp: "heap s' = (heap s)[r := setitem_nodata_nan (heap s ! r) (nodata src)]"
    and dd: "dfme_data s' = Some r"
    using ignore_nodata_heap by blast+
  show "dfme_data s' = Some r" by (rule dd)
  show "heap s' = (heap s)[r := setitem_nodata_nan (heap s ! r) (nodata src)]" by (rule hp)
  have at: "heap s' ! r = setitem_nodata_nan (heap s ! r) (nodata src)"
    using h hp by simp
  show "same_shape (heap s' ! r) (heap s ! r)"
    by (simp add: at same_shape_def setitem_nodata_nan_def)
  fix i assume "i < length (flat (heap s ! r))"
  then show "flat (heap s' ! r) ! i
           = (if eq_nodata (flat (heap s ! r) ! i) (nodata src) then NaN
              else flat (heap s ! r) ! i)"
    unfolding at by (rule flat_setitem_nth)
qed

text \<open>
  C9, as claimed, has no operation change the values of the raster it works on. In the
  first cell the array just read, at address 0, holds 1, -9999 and 3; after the next
  statement the same array holds 1, NaN and 3.
\<close>

theorem in_place_nodata_counterexample:
  "read_dfme ex_dfme empty_notebook
     = \<lparr>heap = [\<lparr>nrows = 1, ncols = 3, flat = [Fin 1, Fin (- 9999), Fin 3]\<rparr>],
        dfme_data = Some 0, road_data = None, final_result = None,
        adaptive_threshold = None, dynamic_threshold = None, thresholded_dfme = None\<rparr> \<and>
   ignore_nodata ex_dfme (read_dfme ex_dfme empty_notebook)
     = Inr \<lparr>heap = [\<lparr>nrows = 1, ncols = 3, flat = [Fin 1, NaN, Fin 3]\<rparr>],
            dfme_data = Some 0, road_data = None, final_result = None,
            adaptive_threshold = None, dynamic_threshold = None, thresholded_dfme = None\<rparr>"
  by (simp add: read_dfme_def ignore_nodata_def new_array_def setitem_nodata_nan_def
      ex_dfme_def empty_notebook_def eq_nodata_def)

lemma marked_notebook_runs:
  "\<exists>s'. cell_global_statistical exact_ops notebook_factor ex_dfme empty_notebook = Inr s'"
  "\<exists>s'. threshold_global_statistical exact_ops notebook_factor marked_notebook = Inr s'"
  "\<exists>s'. cell_percentile exact_ops 50 marked_notebook = Inr s'"
  "\<exists>s'. cell_clustering first_samples 2 42 marked_notebook = Inr s'"
  "\<exists>s'. cell_local_adaptive identity_filter1d 1 0 marked_notebook = Inr s'"
  "\<exists>s'. step5 ex_candidate_ds ex_road_ds marked_notebook = Inr s'"
proof -
  show "\<exists>s'. cell_global_statistical exact_ops notebook_factor ex_dfme empty_notebook = Inr s'"
    by (simp add: cell_global_statistical_def ignore_nodata_def read_dfme_def new_array_def
        threshold_global_statistical_def empty_notebook_def Let_def)
  show "\<exists>s'. threshold_global_statistical exact_ops notebook_factor marked_notebook = Inr s'"
    by (simp add: threshold_global_statistical_def marked_notebook_def Let_def)
  show "\<exists>s'. cell_percentile exact_ops 50 marked_notebook = Inr s'"
    by (simp add: cell_percentile_def marked_notebook_def nanpercentile_def Let_def)
  show "\<exists>s'. cell_clustering first_samples 2 42 marked_notebook = Inr s'"
    by (simp add: cell_clustering_def marked_notebook_def clustering_def KMeans_fit_def
        first_samples_def Let_def)
  have "same_shape a (array_scalar fl_sub a (Fin 0)) \<and> wf_array a \<and>
        wf_array (array_scalar fl_sub a (Fin 0))"
    if "a = \<lparr>nrows = 1, ncols = 3, flat = [Fin 1, NaN, Fin 3]\<rparr>" for a
    using that by (simp add: same_shape_def wf_array_def array_scalar_def)
  then show "\<exists>s'. cell_local_adaptive identity_filter1d 1 0 marked_notebook = Inr s'"
    by (simp add: cell_local_adaptive_def marked_notebook_def threshold_local_odd_positive
        gaussian_filter_small_sigma new_array_def less_array_uint8_same_shape Let_def)
  have "same_shape ex_candidate ex_road \<and> wf_array ex_candidate \<and> wf_array ex_road"
    by (simp add: same_shape_def wf_array_def ex_candidate_def ex_road_def)
  then show "\<exists>s'. step5 ex_candidate_ds ex_road_ds marked_notebook = Inr s'"
    by (simp add: step5_def new_array_def multiply_def array_array_same_shape
        ex_candidate_ds_def ex_road_ds_def)
qed

theorem arrays_unchanged_except_nodata_witness:
  "ignore_nodata ex_dfme loaded_notebook = Inr marked_notebook \<and>
   dfme_data loaded_notebook = Some 0 \<and> 0 < length (heap loaded_notebook) \<and>
   flat (heap loaded_notebook ! 0) = [Fin 1, Fin (- 9999), Fin 3] \<and>
   flat (heap marked_notebook ! 0) ! 0 = Fin 1 \<and>
   flat (heap marked_notebook ! 0) ! 1 = NaN \<and>
   (\<exists>s'. cell_global_statistical exact_ops notebook_factor ex_dfme empty_notebook = Inr s' \<and>
         heap s' = heap marked_notebook) \<and>
   (\<exists>s'. threshold_global_statistical exact_ops notebook_factor marked_notebook = Inr s' \<and>
         heap s' = heap marked_notebook) \<and>
   (\<exists>s'. cell_percentile exact_ops 50 marked_notebook = Inr s' \<and> heap s' = heap marked_notebook) \<and>
   (\<exists>s'. cell_clustering first_samples 2 42 marked_notebook = Inr s' \<and>
         heap s' = heap marked_notebook) \<and>
   (\<exists>s' th. cell_local_adaptive identity_filter1d 1 0 marked_notebook = Inr s' \<and>
         heap s' = heap marked_notebook @ [th]) \<and>
   (\<exists>s' p. step5 ex_candidate_ds ex_road_ds marked_notebook = Inr s' \<and>
         heap s' = heap marked_notebook @ [ex_candidate, ex_road, p])"
proof -
  have ld: "dfme_data loaded_notebook = Some 0" "0 < length (heap loaded_notebook)"
    "flat (heap loaded_notebook ! 0) = [Fin 1, Fin (- 9999), Fin 3]"
    by (simp_all add: loaded_notebook_def read_dfme_def new_array_def ex_dfme_def
        empty_notebook_def)
  have ig: "ignore_nodata ex_dfme loaded_notebook = Inr marked_notebook"
    by (simp add: loaded_notebook_def marked_notebook_def read_dfme_def ignore_nodata_def
        new_array_def setitem_nodata_nan_def ex_dfme_def empty_notebook_def eq_nodata_def)
  have nd: "nodata ex_dfme = Some (Fin (- 9999))"
    by (simp add: ex_dfme_def)
  have mk: "heap empty_notebook @ [setitem_nodata_nan (band1 ex_dfme) (nodata ex_dfme)]
              = heap marked_notebook"
    by (simp add: empty_notebook_def marked_notebook_def setitem_nodata_nan_def ex_dfme_def
        eq_nodata_def)
  have bands: "band1 ex_candidate_ds = ex_candidate" "band1 ex_road_ds = ex_road"
    by (simp_all add: ex_candidate_ds_def ex_road_ds_def)
  note at_loaded = arrays_unchanged_except_nodata[where s = loaded_notebook and src = ex_dfme]
  note at_marked = arrays_unchanged_except_nodata[where s = marked_notebook and
      fp = exact_ops and k = notebook_factor and p = 50 and lloyd = first_samples and n_clusters = 2 and
      random_state = 42 and g = identity_filter1d and block_size = 1 and offset = 0 and
      dfme = ex_candidate_ds and road = ex_road_ds]
  note at_empty = arrays_unchanged_except_nodata[where s = empty_notebook and src = ex_dfme and
      fp = exact_ops and k = notebook_factor]
  from at_loaded ig ld(1,2)
  have cells: "\<forall>i < length (flat (heap loaded_notebook ! 0)).
         flat (heap marked_notebook ! 0) ! i
           = (if eq_nodata (flat (heap loaded_notebook ! 0) ! i) (nodata ex_dfme) then NaN
              else flat (heap loaded_notebook ! 0) ! i)"
    by blast
  have c0: "flat (heap marked_notebook ! 0) ! 0 = Fin 1"
    using cells by (simp add: ld(3) nd eq_nodata_def)
  have c1: "flat (heap marked_notebook ! 0) ! 1 = NaN"
    using cells by (simp add: ld(3) nd eq_nodata_def)
  have r1: "\<exists>s'. cell_global_statistical exact_ops notebook_factor ex_dfme empty_notebook = Inr s' \<and>
         heap s' = heap marked_notebook"
    using marked_notebook_runs(1) at_empty mk by metis
  have r2: "\<exists>s'. threshold_global_statistical exact_ops notebook_factor marked_notebook = Inr s' \<and>
         heap s' = heap marked_notebook"
    using marked_notebook_runs(2) at_marked by blast
  have r3: "\<exists>s'. cell_percentile exact_ops 50 marked_notebook = Inr s' \<and> heap s' = heap marked_notebook"
    using marked_notebook_runs(3) at_marked by blast
  have r4: "\<exists>s'. cell_clustering first_samples 2 42 marked_notebook = Inr s' \<and>
         heap s' = heap marked_notebook"
    using marked_notebook_runs(4) at_marked by blast
  have r5: "\<exists>s' th. cell_local_adaptive identity_filter1d 1 0 marked_notebook = Inr s' \<and>
         heap s' = heap marked_notebook @ [th]"
    using marked_notebook_runs(5) at_marked by blast
  have r6: "\<exists>s' p. step5 ex_candidate_ds ex_road_ds marked_notebook = Inr s' \<and>
         heap s' = heap marked_notebook @ [ex_candidate, ex_road, p]"
    using marked_notebook_runs(6) at_marked bands by metis
  from ig ld c0 c1 r1 r2 r3 r4 r5 r6 show ?thesis by blast
qed

subsection \<open>Worked examples\<close>

text \<open>
  The residual grid \<open>[[-0.3, -0.1], [0.2, -0.2]]\<close> with the threshold -0.15 gives the mask
  \<open>[[1, 0], [0, 1]]\<close>, and the candidate mask \<open>[[1, 0], [0, 1]]\<close> times the road mask
  \<open>[[1, 1], [0, 0]]\<close> gives \<open>[[1, 0], [0, 0]]\<close>.
\<close>

lemma mask_example:
  "less_scalar_uint8
     \<lparr>nrows = 2, ncols = 2, flat = [Fin (- 3 / 10), Fin (- 1 / 10), Fin (1 / 5), Fin (- 1 / 5)]\<rparr>
     (Fin (- 3 / 20))
   = \<lparr>nrows = 2, ncols = 2, flat = [1, 0, 0, 1]\<rparr>"
  by (simp add: less_scalar_uint8_def array_scalar_def astype_uint8_def)

lemma fusion_example:
  "multiply \<lparr>nrows = 2, ncols = 2, flat = [Fin 1, Fin 0, Fin 0, Fin 1]\<rparr> ex_road
   = Inr \<lparr>nrows = 2, ncols = 2, flat = [Fin 1, Fin 0, Fin 0, Fin 0]\<rparr>"
  by (simp add: multiply_def array_array_def broadcast_dim_def bget_def ex_road_def
      upt_rec numeral_nat)

end
